theory Spec2Isabelle
  imports Main "HOL-Library.Word"
begin

section \<open>MaskConfig: typed accessors over the CAMOU\_CONFIG document\<close>

text \<open>
  A shallow embedding of \<^verbatim>\<open>additions/camoucfg/MaskConfig.hpp\<close>. The header reads
  a JSON text from the environment, parses it once with the simdjson DOM parser and
  offers typed getters on the parsed tree. The tree, the element getters of the DOM
  API, the environment and the getters of the header are modelled in this order.
\<close>

subsection \<open>The parsed tree\<close>

text \<open>
  A simdjson DOM element is one of eight kinds. An integer literal that fits a signed
  64-bit value is stored as \<open>JInt64\<close>, a larger one that fits an unsigned 64-bit
  value as \<open>JUint64\<close>, a literal with a fraction or an exponent as \<open>JDouble\<close>.
  The 64-bit payloads are words: \<open>sint\<close> reads a signed payload, \<open>uint\<close> an
  unsigned one, and a double is kept as its IEEE-754 binary64 bit pattern.
  An object keeps its fields in document order.
\<close>

type_synonym int64 = "64 word"
type_synonym uint64 = "64 word"
type_synonym uint32 = "32 word"
type_synonym double = "64 word"

datatype json =
    JNull
  | JBool bool
  | JInt64 int64
  | JUint64 uint64
  | JDouble double
  | JString string
  | JArray "json list"
  | JObject "(string \<times> json) list"

text \<open>The error codes of simdjson that the element getters used here can return.\<close>

datatype error_code = INCORRECT_TYPE | NUMBER_OUT_OF_RANGE | NO_SUCH_FIELD

subsection \<open>Conversions to double and to float\<close>

text \<open>
  \<^verbatim>\<open>double(x)\<close> on a 64-bit integer rounds to the nearest binary64 value, ties to
  even. \<open>bit_length m\<close> is the number of bits of \<open>m\<close>; a magnitude of at most 53
  bits is exact, a longer one loses its low bits. The result is the bit pattern:
  sign, biased exponent, 52 fraction bits.
\<close>

fun bit_length :: "nat \<Rightarrow> nat" where
  "bit_length n = (if n = 0 then 0 else Suc (bit_length (n div 2)))"

declare bit_length.simps [simp del]

definition double_bits_of_nat :: "nat \<Rightarrow> nat" where
  "double_bits_of_nat m =
     (if m = 0 then 0
      else
        let e = bit_length m - 1 in
        if e \<le> 52 then (e + 1023) * 2 ^ 52 + (m * 2 ^ (52 - e) - 2 ^ 52)
        else
          let sh = e - 52;
              q = m div 2 ^ sh;
              r = m mod 2 ^ sh;
              half = 2 ^ (sh - 1);
              q' = (if half < r \<or> (r = half \<and> odd q) then q + 1 else q)
          in (e + 1023) * 2 ^ 52 + (q' - 2 ^ 52))"

definition double_of_uint64 :: "uint64 \<Rightarrow> double" where
  "double_of_uint64 u = of_nat (double_bits_of_nat (unat u))"

definition double_of_int64 :: "int64 \<Rightarrow> double" where
  "double_of_int64 i =
     (if sint i < 0 then of_nat (2 ^ 63 + double_bits_of_nat (nat (- sint i)))
      else of_nat (double_bits_of_nat (nat (sint i))))"

text \<open>
  \<^verbatim>\<open>static_cast<float>(d)\<close> on a double rounds to the nearest binary32 value, ties to
  even, as IEEE-754 arithmetic does: a magnitude beyond the largest float becomes
  infinity, one below the smallest normal float a subnormal float or zero. A float is
  kept as its binary32 bit pattern. \<open>round_shift M sh\<close> is \<open>M / 2^sh\<close> rounded to
  the nearest integer, ties to even; the exponent fields of the two formats differ by
  896.
\<close>

type_synonym float32 = "32 word"

definition round_shift :: "nat \<Rightarrow> nat \<Rightarrow> nat" where
  "round_shift M sh =
     (let q = M div 2 ^ sh;
          r = M mod 2 ^ sh;
          half = 2 ^ (sh - 1)
      in if half < r \<or> (r = half \<and> odd q) then q + 1 else q)"

definition float_bits_of_double_bits :: "nat \<Rightarrow> nat" where
  "float_bits_of_double_bits a =
     (let e = a div 2 ^ 52; m = a mod 2 ^ 52 in
      if e = 2047 then
        (if m = 0 then 2139095040 else 2143289344 + (m div 2 ^ 29) mod 2 ^ 22)
      else if e = 0 then 0
      else if 897 \<le> e then
        min 2139095040 ((e - 896) * 2 ^ 23 + (round_shift (2 ^ 52 + m) 29 - 2 ^ 23))
      else round_shift (2 ^ 52 + m) (926 - e))"

definition float_of_double :: "double \<Rightarrow> float32" where
  "float_of_double d =
     (let b = unat d in
      of_nat ((b div 2 ^ 63) * 2 ^ 31 + float_bits_of_double_bits (b mod 2 ^ 63)))"

subsection \<open>Element getters of the DOM API\<close>

text \<open>
  \<^verbatim>\<open>element.get(x)\<close> returns an error code, and fills \<open>x\<close> on success; here
  \<open>Inl\<close> carries the error and \<open>Inr\<close> the value. The getters are those of
  \<^verbatim>\<open>simdjson::dom::element\<close>, a library the header includes and that is no part
  of it. Its number getters convert between the three number kinds:
  \<^verbatim>\<open>get_uint64\<close> accepts a signed element that is not negative,
  \<^verbatim>\<open>get_int64\<close> an unsigned element of at most \<open>2^63 - 1\<close> (either fails
  with \<^verbatim>\<open>NUMBER_OUT_OF_RANGE\<close> otherwise), and \<^verbatim>\<open>get_double\<close> accepts
  every number, converting an integer of either encoding to double. On an element of
  another kind a getter fails with \<^verbatim>\<open>INCORRECT_TYPE\<close>.
\<close>

fun get_object :: "json \<Rightarrow> error_code + (string \<times> json) list" where
  "get_object (JObject fields) = Inr fields"
| "get_object _ = Inl INCORRECT_TYPE"

fun get_array :: "json \<Rightarrow> error_code + json list" where
  "get_array (JArray elems) = Inr elems"
| "get_array _ = Inl INCORRECT_TYPE"

fun get_string :: "json \<Rightarrow> error_code + string" where
  "get_string (JString s) = Inr s"
| "get_string _ = Inl INCORRECT_TYPE"

fun get_bool :: "json \<Rightarrow> error_code + bool" where
  "get_bool (JBool b) = Inr b"
| "get_bool _ = Inl INCORRECT_TYPE"

fun get_uint64 :: "json \<Rightarrow> error_code + uint64" where
  "get_uint64 (JUint64 u) = Inr u"
| "get_uint64 (JInt64 i) = (if sint i < 0 then Inl NUMBER_OUT_OF_RANGE else Inr i)"
| "get_uint64 _ = Inl INCORRECT_TYPE"

fun get_int64 :: "json \<Rightarrow> error_code + int64" where
  "get_int64 (JInt64 i) = Inr i"
| "get_int64 (JUint64 u) =
     (if 9223372036854775807 < uint u then Inl NUMBER_OUT_OF_RANGE else Inr u)"
| "get_int64 _ = Inl INCORRECT_TYPE"

fun get_double :: "json \<Rightarrow> error_code + double" where
  "get_double (JDouble d) = Inr d"
| "get_double (JUint64 u) = Inr (double_of_uint64 u)"
| "get_double (JInt64 i) = Inr (double_of_int64 i)"
| "get_double _ = Inl INCORRECT_TYPE"

fun is_null :: "json \<Rightarrow> bool" where
  "is_null JNull = True"
| "is_null _ = False"

text \<open>\<^verbatim>\<open>object.at_key(key)\<close> scans the fields in order and returns the first whose
  key equals \<open>key\<close>.\<close>

fun at_key :: "(string \<times> json) list \<Rightarrow> string \<Rightarrow> error_code + json" where
  "at_key [] key = Inl NO_SUCH_FIELD"
| "at_key ((k, v) # fields) key = (if k = key then Inr v else at_key fields key)"

subsection \<open>The environment and the text of the configuration\<close>

text \<open>
  \<^verbatim>\<open>std::to_string\<close> on a non-negative integer: its decimal digits, most
  significant first, no sign and no leading zero.
\<close>

definition digit_char :: "nat \<Rightarrow> char" where
  "digit_char d = ''0123456789'' ! d"

fun to_string :: "nat \<Rightarrow> string" where
  "to_string n =
     (if n < 10 then [digit_char n]
      else to_string (n div 10) @ [digit_char (n mod 10)])"

declare to_string.simps [simp del]

text \<open>
  The process environment is a finite list of name and value pairs, and
  \<^verbatim>\<open>getenv\<close> returns the value of the first pair with the name asked for.
  \<^verbatim>\<open>get_env_utf8\<close> is modelled by its POSIX branch, which copies that value.
\<close>

type_synonym environ = "(string \<times> string) list"

definition get_env_utf8 :: "environ \<Rightarrow> string \<Rightarrow> string option" where
  "get_env_utf8 env name = map_of env name"

text \<open>The name of the shard with a given index. The index is a natural number here;
  the \<^verbatim>\<open>int\<close> of the source stays in range on any environment a process can
  have.\<close>

definition shard_name :: "nat \<Rightarrow> string" where
  "shard_name index = ''CAMOU_CONFIG_'' @ to_string index"

text \<open>
  The loop over \<^verbatim>\<open>CAMOU_CONFIG_1\<close>, \<^verbatim>\<open>CAMOU_CONFIG_2\<close>, ... ends at the
  first name that is not set. It ends on every environment, since the names are
  pairwise different and the environment is finite: the number of shard names still
  ahead, \<open>shards_left\<close>, drops with every round.
\<close>

definition shards_left :: "environ \<Rightarrow> nat \<Rightarrow> nat" where
  "shards_left env index = card {k. index \<le> k \<and> shard_name k \<in> fst ` set env}"

lemma digit_char_inj:
  "a < 10 \<Longrightarrow> b < 10 \<Longrightarrow> digit_char a = digit_char b \<Longrightarrow> a = b"
  unfolding digit_char_def by (subst (asm) nth_eq_iff_index_eq) simp_all

lemma to_string_length: "10 \<le> n \<Longrightarrow> 2 \<le> length (to_string n)"
  by (subst to_string.simps, subst to_string.simps) (simp split: if_splits)

lemma to_string_inj: "to_string m = to_string n \<Longrightarrow> m = n"
proof (induction m arbitrary: n rule: to_string.induct)
  case (1 m)
  show ?case
  proof (cases "m < 10")
    case True
    show ?thesis
    proof (cases "n < 10")
      case True
      with \<open>m < 10\<close> "1.prems" show ?thesis
        by (simp add: to_string.simps [of m] to_string.simps [of n] digit_char_inj)
    next
      case False
      then have "2 \<le> length (to_string n)"
        by (simp add: to_string_length)
      moreover have "length (to_string m) = 1"
        using \<open>m < 10\<close> by (simp add: to_string.simps [of m])
      ultimately show ?thesis using "1.prems" by simp
    qed
  next
    case False
    show ?thesis
    proof (cases "n < 10")
      case True
      then have "length (to_string n) = 1"
        by (simp add: to_string.simps [of n])
      moreover have "2 \<le> length (to_string m)"
        using False by (simp add: to_string_length)
      ultimately show ?thesis using "1.prems" by simp
    next
      case nf: False
      from False nf "1.prems"
      have "to_string (m div 10) @ [digit_char (m mod 10)] =
          to_string (n div 10) @ [digit_char (n mod 10)]"
        by (simp add: to_string.simps [of m] to_string.simps [of n])
      then have hi: "to_string (m div 10) = to_string (n div 10)"
        and lo: "digit_char (m mod 10) = digit_char (n mod 10)"
        by simp_all
      from hi "1.IH" False have "m div 10 = n div 10" by simp
      moreover have "m mod 10 = n mod 10" using lo by (simp add: digit_char_inj)
      ultimately show ?thesis by (metis div_mult_mod_eq)
    qed
  qed
qed

lemma shard_name_inj: "shard_name i = shard_name j \<Longrightarrow> i = j"
  by (simp add: shard_name_def to_string_inj)

lemma finite_shards: "finite {k. shard_name k \<in> fst ` set env}"
proof -
  have "inj shard_name" by (auto simp: inj_on_def dest: shard_name_inj)
  then have "finite (shard_name -` (fst ` set env))"
    by (intro finite_vimageI) simp_all
  then show ?thesis by (simp add: vimage_def)
qed

lemma shards_left_less:
  assumes "get_env_utf8 env (shard_name index) = Some v"
  shows "shards_left env (Suc index) < shards_left env index"
proof -
  let ?A = "{k. Suc index \<le> k \<and> shard_name k \<in> fst ` set env}"
  let ?B = "{k. index \<le> k \<and> shard_name k \<in> fst ` set env}"
  from assms have "shard_name index \<in> fst ` set env"
    by (auto simp: get_env_utf8_def dest!: map_of_SomeD intro: rev_image_eqI)
  then have "index \<in> ?B" and "index \<notin> ?A" by simp_all
  then have "?A \<noteq> ?B" by blast
  moreover have "?A \<subseteq> ?B" by auto
  ultimately have "?A \<subset> ?B" by (simp add: psubset_eq)
  moreover have "finite ?B"
    using finite_shards [of env] by (rule rev_finite_subset) auto
  ultimately show ?thesis
    unfolding shards_left_def by (rule psubset_card_mono [rotated])
qed

function collect_parts :: "environ \<Rightarrow> nat \<Rightarrow> string list \<Rightarrow> string list" where
  "collect_parts env index parts =
     (case get_env_utf8 env (shard_name index) of
        None \<Rightarrow> parts
      | Some partial \<Rightarrow> collect_parts env (Suc index) (parts @ [partial]))"
  by pat_completeness auto
termination
  by (relation "measure (\<lambda>(env, index, parts). shards_left env index)")
     (auto simp: shards_left_less)

declare collect_parts.simps [simp del]

text \<open>
  \<open>config_text\<close> is \<^verbatim>\<open>jsonString\<close> as it stands before parsing: the shards
  concatenated, and when that text is empty, the value of \<^verbatim>\<open>CAMOU_CONFIG\<close> if
  it is set.
\<close>

definition config_text :: "environ \<Rightarrow> string" where
  "config_text env =
     (let jsonString = concat (collect_parts env 1 []) in
      if jsonString = [] then
        (case get_env_utf8 env ''CAMOU_CONFIG'' of
           Some original \<Rightarrow> original
         | None \<Rightarrow> jsonString)
      else jsonString)"

text \<open>
  What the header prints with \<^verbatim>\<open>printf_stderr\<close>: the message on a text that does
  not parse, and the message of \<^verbatim>\<open>GetRect\<close> with the names of its width and
  height keys.
\<close>

datatype diagnostic = InvalidJson | RectIncomplete string string

text \<open>
  \<^verbatim>\<open>GetJson\<close>, the body run once under \<^verbatim>\<open>std::call_once\<close>. The parser is a
  parameter: \<open>parse\<close> maps a text to its tree, or to \<open>None\<close> on any parse error.
  The literal \<^verbatim>\<open>{}\<close> parses to the object without fields. The result is what was
  printed and the root of the document.
\<close>

definition GetJson :: "(string \<Rightarrow> json option) \<Rightarrow> environ \<Rightarrow> diagnostic list \<times> json" where
  "GetJson parse env =
     (let jsonString = config_text env in
      if jsonString = [] then ([], JObject [])
      else
        (case parse jsonString of
           Some root \<Rightarrow> ([], root)
         | None \<Rightarrow> ([InvalidJson], JObject [])))"

subsection \<open>String getters and the cache of lower-cased lists\<close>

definition GetString :: "json \<Rightarrow> string \<Rightarrow> string option" where
  "GetString data key =
     (case get_object data of
        Inl _ \<Rightarrow> None
      | Inr obj \<Rightarrow>
     (case at_key obj key of
        Inl _ \<Rightarrow> None
      | Inr el \<Rightarrow>
     (case get_string el of
        Inl _ \<Rightarrow> None
      | Inr sv \<Rightarrow> Some sv)))"

text \<open>The loop of \<^verbatim>\<open>GetStringList\<close> over the array, \<open>result\<close> being the vector
  it appends to.\<close>

fun string_list_loop :: "json list \<Rightarrow> string list \<Rightarrow> string list" where
  "string_list_loop [] result = result"
| "string_list_loop (v # arr) result =
     (case get_string v of
        Inr sv \<Rightarrow> string_list_loop arr (result @ [sv])
      | Inl _ \<Rightarrow> string_list_loop arr result)"

definition GetStringList :: "json \<Rightarrow> string \<Rightarrow> string list" where
  "GetStringList data key =
     (case get_object data of
        Inl _ \<Rightarrow> []
      | Inr obj \<Rightarrow>
     (case at_key obj key of
        Inl _ \<Rightarrow> []
      | Inr el \<Rightarrow>
     (case get_array el of
        Inl _ \<Rightarrow> []
      | Inr arr \<Rightarrow> string_list_loop arr [])))"

text \<open>\<^verbatim>\<open>std::tolower\<close> on a byte, in the C locale: the 26 upper-case ASCII letters
  move to lower case, every other byte stays.\<close>

definition tolower :: "char \<Rightarrow> char" where
  "tolower c =
     (let n = (of_char c :: nat) in
      if 65 \<le> n \<and> n \<le> 90 then char_of (n + 32) else c)"

text \<open>
  The static cache of \<^verbatim>\<open>GetStringListLower\<close> is a map from keys to lists, passed
  in and returned. \<^verbatim>\<open>cache.emplace\<close> inserts only when the key has no entry, and
  returns the entry the key has afterwards.
\<close>

type_synonym lower_cache = "string \<rightharpoonup> string list"

definition emplace :: "lower_cache \<Rightarrow> string \<Rightarrow> string list \<Rightarrow> lower_cache \<times> string list" where
  "emplace cache key val =
     (case cache key of
        Some existing \<Rightarrow> (cache, existing)
      | None \<Rightarrow> (cache(key \<mapsto> val), val))"

definition GetStringListLower :: "json \<Rightarrow> lower_cache \<Rightarrow> string \<Rightarrow> string list \<times> lower_cache" where
  "GetStringListLower data cache key =
     (case cache key of
        Some hit \<Rightarrow> (hit, cache)
      | None \<Rightarrow>
          let result = map (map tolower) (GetStringList data key);
              (cache', entry) = emplace cache key result
          in (entry, cache'))"

subsection \<open>Unsigned getters\<close>

text \<open>
  \<^verbatim>\<open>GetUintImpl<T>\<close> for an unsigned type of \<open>LENGTH('a)\<close> bits. The largest
  value of \<open>T\<close> is the word \<open>- 1\<close>, widened to 64 bits for the comparison; the
  comparisons on \<open>uint64_t\<close> are the unsigned order of words.
\<close>

definition GetUintImpl :: "json \<Rightarrow> string \<Rightarrow> 'a::len word option" where
  "GetUintImpl data key =
     (case get_object data of
        Inl _ \<Rightarrow> None
      | Inr obj \<Rightarrow>
     (case at_key obj key of
        Inl _ \<Rightarrow> None
      | Inr el \<Rightarrow>
     (case get_uint64 el of
        Inr u \<Rightarrow>
          if (ucast (- 1 :: 'a word) :: uint64) < u then None else Some (ucast u)
      | Inl _ \<Rightarrow>
     (case get_int64 el of
        Inr i \<Rightarrow>
          if 0 \<le> sint i then
            (if (ucast (- 1 :: 'a word) :: uint64) < i then None else Some (ucast i))
          else None
      | Inl _ \<Rightarrow> None))))"

definition GetUint64 :: "json \<Rightarrow> string \<Rightarrow> uint64 option" where
  "GetUint64 data key = GetUintImpl data key"

definition GetUint32 :: "json \<Rightarrow> string \<Rightarrow> uint32 option" where
  "GetUint32 data key = GetUintImpl data key"

subsection \<open>Signed, floating and boolean getters\<close>

definition GetInt32 :: "json \<Rightarrow> string \<Rightarrow> 32 word option" where
  "GetInt32 data key =
     (case get_object data of
        Inl _ \<Rightarrow> None
      | Inr obj \<Rightarrow>
     (case at_key obj key of
        Inl _ \<Rightarrow> None
      | Inr el \<Rightarrow>
     (case get_int64 el of
        Inl _ \<Rightarrow> None
      | Inr v \<Rightarrow>
          if sint v < - 2147483648 \<or> 2147483647 < sint v then None
          else Some (ucast v))))"

definition GetDouble :: "json \<Rightarrow> string \<Rightarrow> double option" where
  "GetDouble data key =
     (case get_object data of
        Inl _ \<Rightarrow> None
      | Inr obj \<Rightarrow>
     (case at_key obj key of
        Inl _ \<Rightarrow> None
      | Inr el \<Rightarrow>
     (case get_double el of
        Inr d \<Rightarrow> Some d
      | Inl _ \<Rightarrow>
     (case get_int64 el of
        Inr i \<Rightarrow> Some (double_of_int64 i)
      | Inl _ \<Rightarrow>
     (case get_uint64 el of
        Inr u \<Rightarrow> Some (double_of_uint64 u)
      | Inl _ \<Rightarrow> None)))))"

definition GetBool :: "json \<Rightarrow> string \<Rightarrow> bool option" where
  "GetBool data key =
     (case get_object data of
        Inl _ \<Rightarrow> None
      | Inr obj \<Rightarrow>
     (case at_key obj key of
        Inl _ \<Rightarrow> None
      | Inr el \<Rightarrow>
     (case get_bool el of
        Inl _ \<Rightarrow> None
      | Inr b \<Rightarrow> Some b)))"

definition CheckBool :: "json \<Rightarrow> string \<Rightarrow> bool" where
  "CheckBool data key = (case GetBool data key of Some b \<Rightarrow> b | None \<Rightarrow> False)"

subsection \<open>Rectangles\<close>

text \<open>
  \<^verbatim>\<open>GetRect\<close> returns what it printed and its result; the array of four values is
  the list \<open>[left, top, width, height]\<close>. \<^verbatim>\<open>value()\<close> is read with \<open>the\<close>
  only where both options hold a value.
\<close>

definition value_or :: "'a option \<Rightarrow> 'a \<Rightarrow> 'a" where
  "value_or opt d = (case opt of Some v \<Rightarrow> v | None \<Rightarrow> d)"

definition has_value :: "'a option \<Rightarrow> bool" where
  "has_value opt = (case opt of Some _ \<Rightarrow> True | None \<Rightarrow> False)"

definition GetRect ::
  "json \<Rightarrow> string \<Rightarrow> string \<Rightarrow> string \<Rightarrow> string \<Rightarrow> diagnostic list \<times> uint32 list option" where
  "GetRect data left top' width height =
     (let leftOpt = GetUint32 data left;
          topOpt = GetUint32 data top';
          widthOpt = GetUint32 data width;
          heightOpt = GetUint32 data height
      in
        if \<not> has_value widthOpt \<or> \<not> has_value heightOpt then
          (if has_value widthOpt \<noteq> has_value heightOpt
           then [RectIncomplete width height] else [],
           None)
        else
          ([], Some [value_or leftOpt 0, value_or topOpt 0, the widthOpt, the heightOpt]))"

text \<open>The loop of \<^verbatim>\<open>GetInt32Rect\<close> over the four values; \<open>None\<close> is its early
  return.\<close>

fun narrow_loop :: "uint32 list \<Rightarrow> 32 word list \<Rightarrow> 32 word list option" where
  "narrow_loop [] result = Some result"
| "narrow_loop (x # xs) result =
     (if 2147483647 < x then None else narrow_loop xs (result @ [x]))"

definition GetInt32Rect ::
  "json \<Rightarrow> string \<Rightarrow> string \<Rightarrow> string \<Rightarrow> string \<Rightarrow> diagnostic list \<times> 32 word list option" where
  "GetInt32Rect data left top' width height =
     (case GetRect data left top' width height of
        (out, Some optValue) \<Rightarrow> (out, narrow_loop optValue [])
      | (out, None) \<Rightarrow> (out, None))"

subsection \<open>Nested lookups for WebGL\<close>

definition GetNested :: "json \<Rightarrow> string \<Rightarrow> string \<Rightarrow> json option" where
  "GetNested root domain keyStr =
     (case get_object root of
        Inl _ \<Rightarrow> None
      | Inr rootObj \<Rightarrow>
     (case at_key rootObj domain of
        Inl _ \<Rightarrow> None
      | Inr domainEl \<Rightarrow>
     (case get_object domainEl of
        Inl _ \<Rightarrow> None
      | Inr domainObj \<Rightarrow>
     (case at_key domainObj keyStr of
        Inl _ \<Rightarrow> None
      | Inr out \<Rightarrow> Some out))))"

text \<open>
  The templates take a result type \<open>T\<close>. A \<open>ctype\<close> names the types the
  \<^verbatim>\<open>if constexpr\<close> chains tell apart: \<^verbatim>\<open>bool\<close>, a signed or an unsigned integer
  type of a given number of bits (at most 64), the floating-point types \<^verbatim>\<open>float\<close>,
  \<^verbatim>\<open>double\<close> and \<^verbatim>\<open>long double\<close>, \<^verbatim>\<open>std::string\<close>, and any other type. The
  type traits are those of the C++ standard library; there \<^verbatim>\<open>bool\<close> is an integral
  and an unsigned type, with the largest value 1, and the floating-point types are
  signed. A \<open>cvalue\<close> is a value of one of these types; a \<^verbatim>\<open>long double\<close> holds
  every double exactly, and its value is kept as the double it equals.
\<close>

datatype ctype =
    CBool
  | CSigned nat
  | CUnsigned nat
  | CFloat
  | CDouble
  | CLongDouble
  | CString
  | COther

datatype cvalue =
    BoolV bool
  | SignedV int
  | UnsignedV nat
  | FloatV float32
  | DoubleV double
  | LongDoubleV double
  | StringV string

fun is_integral :: "ctype \<Rightarrow> bool" where
  "is_integral CBool = True"
| "is_integral (CSigned w) = True"
| "is_integral (CUnsigned w) = True"
| "is_integral _ = False"

fun is_signed :: "ctype \<Rightarrow> bool" where
  "is_signed (CSigned w) = True"
| "is_signed CFloat = True"
| "is_signed CDouble = True"
| "is_signed CLongDouble = True"
| "is_signed _ = False"

fun is_unsigned :: "ctype \<Rightarrow> bool" where
  "is_unsigned CBool = True"
| "is_unsigned (CUnsigned w) = True"
| "is_unsigned _ = False"

fun is_floating_point :: "ctype \<Rightarrow> bool" where
  "is_floating_point CFloat = True"
| "is_floating_point CDouble = True"
| "is_floating_point CLongDouble = True"
| "is_floating_point _ = False"

fun limits_min :: "ctype \<Rightarrow> int" where
  "limits_min (CSigned w) = - (2 ^ (w - 1))"
| "limits_min _ = 0"

fun limits_max :: "ctype \<Rightarrow> int" where
  "limits_max CBool = 1"
| "limits_max (CSigned w) = 2 ^ (w - 1) - 1"
| "limits_max (CUnsigned w) = 2 ^ w - 1"
| "limits_max _ = 0"

text \<open>\<^verbatim>\<open>static_cast<T>(u)\<close> for an unsigned \<open>T\<close> and a value within its limits:
  for \<^verbatim>\<open>bool\<close> the test against zero, else the same number.\<close>

definition cast_unsigned :: "ctype \<Rightarrow> uint64 \<Rightarrow> cvalue" where
  "cast_unsigned T u = (if T = CBool then BoolV (u \<noteq> 0) else UnsignedV (unat u))"

text \<open>\<^verbatim>\<open>static_cast<T>(d)\<close> for a floating-point \<open>T\<close>: narrowed for \<^verbatim>\<open>float\<close>,
  unchanged for \<^verbatim>\<open>double\<close>, widened without loss for \<^verbatim>\<open>long double\<close>.\<close>

definition cast_floating :: "ctype \<Rightarrow> double \<Rightarrow> cvalue" where
  "cast_floating T d =
     (if T = CFloat then FloatV (float_of_double d)
      else if T = CLongDouble then LongDoubleV d
      else DoubleV d)"

definition parameters_domain :: "bool \<Rightarrow> string" where
  "parameters_domain isWebGL2 = (if isWebGL2 then ''webGl2:parameters'' else ''webGl:parameters'')"

definition GetAttribute :: "ctype \<Rightarrow> json \<Rightarrow> string \<Rightarrow> bool \<Rightarrow> cvalue option" where
  "GetAttribute T root attrib isWebGL2 =
     (case GetNested root
        (if isWebGL2 then ''webGl2:contextAttributes'' else ''webGl:contextAttributes'') attrib of
        None \<Rightarrow> None
      | Some el \<Rightarrow>
          if T = CBool then
            (case get_bool el of Inl _ \<Rightarrow> None | Inr b \<Rightarrow> Some (BoolV b))
          else if is_integral T \<and> is_signed T then
            (case get_int64 el of
               Inl _ \<Rightarrow> None
             | Inr i \<Rightarrow>
                 if sint i < limits_min T \<or> limits_max T < sint i then None
                 else Some (SignedV (sint i)))
          else if is_integral T \<and> is_unsigned T then
            (case get_uint64 el of
               Inl _ \<Rightarrow> None
             | Inr u \<Rightarrow>
                 if limits_max T < uint u then None else Some (cast_unsigned T u))
          else if is_floating_point T then
            (case get_double el of Inl _ \<Rightarrow> None | Inr d \<Rightarrow> Some (cast_floating T d))
          else if T = CString then
            (case get_string el of Inl _ \<Rightarrow> None | Inr sv \<Rightarrow> Some (StringV sv))
          else None)"

text \<open>The result of \<^verbatim>\<open>GLParam\<close>: the alternatives of its \<^verbatim>\<open>std::variant\<close>.\<close>

datatype gl_variant =
    VInt64 int64
  | VBool bool
  | VDouble double
  | VString string
  | VNull

definition GLParam :: "json \<Rightarrow> uint32 \<Rightarrow> bool \<Rightarrow> gl_variant option" where
  "GLParam root pname isWebGL2 =
     (case GetNested root (parameters_domain isWebGL2) (to_string (unat pname)) of
        None \<Rightarrow> None
      | Some el \<Rightarrow>
          if is_null el then Some VNull
          else
     (case get_string el of
        Inr sv \<Rightarrow> Some (VString sv)
      | Inl _ \<Rightarrow>
     (case get_double el of
        Inr d \<Rightarrow> Some (VDouble d)
      | Inl _ \<Rightarrow>
     (case get_int64 el of
        Inr i \<Rightarrow> Some (VInt64 i)
      | Inl _ \<Rightarrow>
     (case get_bool el of
        Inr b \<Rightarrow> Some (VBool b)
      | Inl _ \<Rightarrow> None)))))"

definition MParamGL :: "ctype \<Rightarrow> json \<Rightarrow> uint32 \<Rightarrow> cvalue \<Rightarrow> bool \<Rightarrow> cvalue" where
  "MParamGL T root pname defaultValue isWebGL2 =
     (case GetNested root (parameters_domain isWebGL2) (to_string (unat pname)) of
        None \<Rightarrow> defaultValue
      | Some el \<Rightarrow>
          if T = CBool then
            (case get_bool el of Inl _ \<Rightarrow> defaultValue | Inr b \<Rightarrow> BoolV b)
          else if is_integral T \<and> is_signed T then
            (case get_int64 el of
               Inl _ \<Rightarrow> defaultValue
             | Inr i \<Rightarrow>
                 if sint i < limits_min T \<or> limits_max T < sint i then defaultValue
                 else SignedV (sint i))
          else if is_integral T \<and> is_unsigned T then
            (case get_uint64 el of
               Inl _ \<Rightarrow> defaultValue
             | Inr u \<Rightarrow>
                 if limits_max T < uint u then defaultValue else cast_unsigned T u)
          else if is_floating_point T then
            (case get_double el of Inl _ \<Rightarrow> defaultValue | Inr d \<Rightarrow> cast_floating T d)
          else if T = CString then
            (case get_string el of Inl _ \<Rightarrow> defaultValue | Inr sv \<Rightarrow> StringV sv)
          else defaultValue)"

text \<open>
  One round of the loop of \<^verbatim>\<open>MParamGLVector\<close>: the value pushed for the element
  \<open>v\<close>, or \<open>None\<close> where the round returns the default. The branches stand in the
  order of the source, the integral ones first.
\<close>

definition vector_element :: "ctype \<Rightarrow> json \<Rightarrow> cvalue option" where
  "vector_element T v =
     (if is_integral T \<and> is_signed T then
        (case get_int64 v of
           Inl _ \<Rightarrow> None
         | Inr i \<Rightarrow>
             if sint i < limits_min T \<or> limits_max T < sint i then None
             else Some (SignedV (sint i)))
      else if is_integral T \<and> is_unsigned T then
        (case get_uint64 v of
           Inl _ \<Rightarrow> None
         | Inr u \<Rightarrow>
             if limits_max T < uint u then None else Some (cast_unsigned T u))
      else if is_floating_point T then
        (case get_double v of Inl _ \<Rightarrow> None | Inr d \<Rightarrow> Some (cast_floating T d))
      else if T = CBool then
        (case get_bool v of Inl _ \<Rightarrow> None | Inr b \<Rightarrow> Some (BoolV b))
      else if T = CString then
        (case get_string v of Inl _ \<Rightarrow> None | Inr sv \<Rightarrow> Some (StringV sv))
      else None)"

fun vector_loop :: "ctype \<Rightarrow> json list \<Rightarrow> cvalue list \<Rightarrow> cvalue list option" where
  "vector_loop T [] out = Some out"
| "vector_loop T (v # arr) out =
     (case vector_element T v of
        None \<Rightarrow> None
      | Some x \<Rightarrow> vector_loop T arr (out @ [x]))"

definition MParamGLVector ::
  "ctype \<Rightarrow> json \<Rightarrow> uint32 \<Rightarrow> cvalue list \<Rightarrow> bool \<Rightarrow> cvalue list" where
  "MParamGLVector T root pname defaultValue isWebGL2 =
     (case GetNested root (parameters_domain isWebGL2) (to_string (unat pname)) of
        None \<Rightarrow> defaultValue
      | Some el \<Rightarrow>
     (case get_array el of
        Inl _ \<Rightarrow> defaultValue
      | Inr arr \<Rightarrow>
     (case vector_loop T arr [] of
        None \<Rightarrow> defaultValue
      | Some out \<Rightarrow> out)))"

subsection \<open>Shader precision and voices\<close>

definition in_int32 :: "int64 \<Rightarrow> bool" where
  "in_int32 v = (\<not> (sint v < - 2147483648 \<or> 2147483647 < sint v))"

definition MShaderData :: "json \<Rightarrow> uint32 \<Rightarrow> uint32 \<Rightarrow> bool \<Rightarrow> 32 word list option" where
  "MShaderData root shaderType precisionType isWebGL2 =
     (let valueName = to_string (unat shaderType) @ '','' @ to_string (unat precisionType) in
      case GetNested root
        (if isWebGL2 then ''webGl2:shaderPrecisionFormats''
         else ''webGl:shaderPrecisionFormats'') valueName of
        None \<Rightarrow> None
      | Some el \<Rightarrow>
     (case get_object el of
        Inl _ \<Rightarrow> None
      | Inr obj \<Rightarrow>
     (case at_key obj ''rangeMin'' of
        Inl _ \<Rightarrow> None
      | Inr eMin \<Rightarrow>
     (case at_key obj ''rangeMax'' of
        Inl _ \<Rightarrow> None
      | Inr eMax \<Rightarrow>
     (case at_key obj ''precision'' of
        Inl _ \<Rightarrow> None
      | Inr ePrec \<Rightarrow>
     (case get_int64 eMin of
        Inl _ \<Rightarrow> None
      | Inr rmin \<Rightarrow>
     (case get_int64 eMax of
        Inl _ \<Rightarrow> None
      | Inr rmax \<Rightarrow>
     (case get_int64 ePrec of
        Inl _ \<Rightarrow> None
      | Inr prec \<Rightarrow>
          if \<not> in_int32 rmin then None
          else if \<not> in_int32 rmax then None
          else if \<not> in_int32 prec then None
          else Some [ucast rmin, ucast rmax, ucast prec]))))))))"

text \<open>
  A voice is the tuple of \<^verbatim>\<open>lang\<close>, \<^verbatim>\<open>name\<close>, \<^verbatim>\<open>voiceUri\<close>,
  \<^verbatim>\<open>isDefault\<close> and \<^verbatim>\<open>isLocalService\<close>. \<open>voice_entry\<close> is one round of the
  loop of \<^verbatim>\<open>MVoices\<close>: the tuple appended for an element, or \<open>None\<close> where the
  round ends with \<^verbatim>\<open>continue\<close>.
\<close>

type_synonym voice = "string \<times> string \<times> string \<times> bool \<times> bool"

definition voice_entry :: "json \<Rightarrow> voice option" where
  "voice_entry voiceEl =
     (case get_object voiceEl of
        Inl _ \<Rightarrow> None
      | Inr vObj \<Rightarrow>
     (case at_key vObj ''lang'' of
        Inl _ \<Rightarrow> None
      | Inr langEl \<Rightarrow>
     (case at_key vObj ''name'' of
        Inl _ \<Rightarrow> None
      | Inr nameEl \<Rightarrow>
     (case at_key vObj ''voiceUri'' of
        Inl _ \<Rightarrow> None
      | Inr uriEl \<Rightarrow>
     (case at_key vObj ''isDefault'' of
        Inl _ \<Rightarrow> None
      | Inr defEl \<Rightarrow>
     (case at_key vObj ''isLocalService'' of
        Inl _ \<Rightarrow> None
      | Inr localEl \<Rightarrow>
     (case get_string langEl of
        Inl _ \<Rightarrow> None
      | Inr lang \<Rightarrow>
     (case get_string nameEl of
        Inl _ \<Rightarrow> None
      | Inr name \<Rightarrow>
     (case get_string uriEl of
        Inl _ \<Rightarrow> None
      | Inr uri \<Rightarrow>
     (case get_bool defEl of
        Inl _ \<Rightarrow> None
      | Inr isDefault \<Rightarrow>
     (case get_bool localEl of
        Inl _ \<Rightarrow> None
      | Inr isLocal \<Rightarrow> Some (lang, name, uri, isDefault, isLocal))))))))))))"

fun voices_loop :: "json list \<Rightarrow> voice list \<Rightarrow> voice list" where
  "voices_loop [] voices = voices"
| "voices_loop (voiceEl # voicesArr) voices =
     (case voice_entry voiceEl of
        None \<Rightarrow> voices_loop voicesArr voices
      | Some entry \<Rightarrow> voices_loop voicesArr (voices @ [entry]))"

definition MVoices :: "json \<Rightarrow> voice list option" where
  "MVoices root =
     (case get_object root of
        Inl _ \<Rightarrow> None
      | Inr rootObj \<Rightarrow>
     (case at_key rootObj ''voices'' of
        Inl _ \<Rightarrow> None
      | Inr voicesEl \<Rightarrow>
     (case get_array voicesEl of
        Inl _ \<Rightarrow> None
      | Inr voicesArr \<Rightarrow> Some (voices_loop voicesArr []))))"

section \<open>Notions used in the statements\<close>

text \<open>
  Every getter of the header starts with the same two steps on the root of the
  document: it reads the root as an object and looks the key up in it. \<open>root_at\<close>
  is the outcome of these two steps, the element the key holds in the document.
\<close>

definition root_at :: "json \<Rightarrow> string \<Rightarrow> error_code + json" where
  "root_at data key =
     (case get_object data of
        Inl e \<Rightarrow> Inl e
      | Inr obj \<Rightarrow> at_key obj key)"

text \<open>The integer a tree node encodes, in either integer encoding; no other node
  encodes one.\<close>

definition json_integer :: "json \<Rightarrow> int option" where
  "json_integer el =
     (case el of
        JInt64 i \<Rightarrow> Some (sint i)
      | JUint64 u \<Rightarrow> Some (uint u)
      | _ \<Rightarrow> None)"

text \<open>The string elements of an array, in the order of the array.\<close>

definition strings_of :: "json list \<Rightarrow> string list" where
  "strings_of arr = concat (map (\<lambda>v. case v of JString s \<Rightarrow> [s] | _ \<Rightarrow> []) arr)"

text \<open>
  A well-formed voice is an object whose fields \<^verbatim>\<open>lang\<close>, \<^verbatim>\<open>name\<close> and
  \<^verbatim>\<open>voiceUri\<close> are strings and whose fields \<^verbatim>\<open>isDefault\<close> and
  \<^verbatim>\<open>isLocalService\<close> are booleans; \<open>well_formed_voice\<close> returns its descriptor,
  and \<open>None\<close> on every other element.
\<close>

definition field_string :: "(string \<times> json) list \<Rightarrow> string \<Rightarrow> string option" where
  "field_string obj k = (case at_key obj k of Inr (JString s) \<Rightarrow> Some s | _ \<Rightarrow> None)"

definition field_bool :: "(string \<times> json) list \<Rightarrow> string \<Rightarrow> bool option" where
  "field_bool obj k = (case at_key obj k of Inr (JBool b) \<Rightarrow> Some b | _ \<Rightarrow> None)"

definition well_formed_voice :: "json \<Rightarrow> voice option" where
  "well_formed_voice v =
     (case v of
        JObject obj \<Rightarrow>
          (case (field_string obj ''lang'', field_string obj ''name'',
                 field_string obj ''voiceUri'', field_bool obj ''isDefault'',
                 field_bool obj ''isLocalService'') of
             (Some lang, Some name, Some uri, Some isDefault, Some isLocal) \<Rightarrow>
               Some (lang, name, uri, isDefault, isLocal)
           | _ \<Rightarrow> None)
      | _ \<Rightarrow> None)"

text \<open>
  Decoding in a fixed order: \<open>first_success fs x\<close> is the result of the first decoder
  in \<open>fs\<close> that accepts \<open>x\<close>. The five decoders are those of the alternatives of
  \<^verbatim>\<open>GLParam\<close>, each built on the element getter of its type.
\<close>

fun first_success :: "('a \<Rightarrow> 'b option) list \<Rightarrow> 'a \<Rightarrow> 'b option" where
  "first_success [] x = None"
| "first_success (f # fs) x =
     (case f x of Some y \<Rightarrow> Some y | None \<Rightarrow> first_success fs x)"

definition decode_null :: "json \<Rightarrow> gl_variant option" where
  "decode_null el = (if is_null el then Some VNull else None)"

definition decode_string :: "json \<Rightarrow> gl_variant option" where
  "decode_string el = (case get_string el of Inr sv \<Rightarrow> Some (VString sv) | Inl _ \<Rightarrow> None)"

definition decode_double :: "json \<Rightarrow> gl_variant option" where
  "decode_double el = (case get_double el of Inr d \<Rightarrow> Some (VDouble d) | Inl _ \<Rightarrow> None)"

definition decode_int64 :: "json \<Rightarrow> gl_variant option" where
  "decode_int64 el = (case get_int64 el of Inr i \<Rightarrow> Some (VInt64 i) | Inl _ \<Rightarrow> None)"

definition decode_bool :: "json \<Rightarrow> gl_variant option" where
  "decode_bool el = (case get_bool el of Inr b \<Rightarrow> Some (VBool b) | Inl _ \<Rightarrow> None)"

text \<open>
  The coercion rules of the typed accessors, by result type: a boolean only from a
  boolean; a signed or an unsigned integer from an integer, in either encoding, within
  the range of the type; a floating-point value from any number, converted to double
  and from there to the type; a string only from a string.
\<close>

definition coerces_to :: "ctype \<Rightarrow> json \<Rightarrow> cvalue option" where
  "coerces_to T v =
     (case T of
        CBool \<Rightarrow> (case v of JBool b \<Rightarrow> Some (BoolV b) | _ \<Rightarrow> None)
      | CSigned w \<Rightarrow>
          (case json_integer v of
             Some n \<Rightarrow>
               if - (2 ^ (w - 1)) \<le> n \<and> n < 2 ^ (w - 1) then Some (SignedV n) else None
           | None \<Rightarrow> None)
      | CUnsigned w \<Rightarrow>
          (case json_integer v of
             Some n \<Rightarrow> if 0 \<le> n \<and> n < 2 ^ w then Some (UnsignedV (nat n)) else None
           | None \<Rightarrow> None)
      | CFloat \<Rightarrow>
          (case v of
             JDouble d \<Rightarrow> Some (FloatV (float_of_double d))
           | JInt64 i \<Rightarrow> Some (FloatV (float_of_double (double_of_int64 i)))
           | JUint64 u \<Rightarrow> Some (FloatV (float_of_double (double_of_uint64 u)))
           | _ \<Rightarrow> None)
      | CDouble \<Rightarrow>
          (case v of
             JDouble d \<Rightarrow> Some (DoubleV d)
           | JInt64 i \<Rightarrow> Some (DoubleV (double_of_int64 i))
           | JUint64 u \<Rightarrow> Some (DoubleV (double_of_uint64 u))
           | _ \<Rightarrow> None)
      | CLongDouble \<Rightarrow>
          (case v of
             JDouble d \<Rightarrow> Some (LongDoubleV d)
           | JInt64 i \<Rightarrow> Some (LongDoubleV (double_of_int64 i))
           | JUint64 u \<Rightarrow> Some (LongDoubleV (double_of_uint64 u))
           | _ \<Rightarrow> None)
      | CString \<Rightarrow> (case v of JString s \<Rightarrow> Some (StringV s) | _ \<Rightarrow> None)
      | COther \<Rightarrow> None)"

text \<open>The cache after a sequence of calls of \<^verbatim>\<open>GetStringListLower\<close>, and what it
  means for a cache to hold only lists computed from the document.\<close>

fun calls :: "json \<Rightarrow> lower_cache \<Rightarrow> string list \<Rightarrow> lower_cache" where
  "calls data cache [] = cache"
| "calls data cache (k # ks) = calls data (snd (GetStringListLower data cache k)) ks"

definition consistent :: "json \<Rightarrow> lower_cache \<Rightarrow> bool" where
  "consistent data cache =
     (\<forall>k v. cache k = Some v \<longrightarrow> v = map (map tolower) (GetStringList data k))"

text \<open>
  A fragment of the parser, for the examples: the documents of the texts \<^verbatim>\<open>[1]\<close>
  and \<^verbatim>\<open>{}\<close>; no other text is used with it but the malformed \<^verbatim>\<open>{\<close>.
\<close>

definition example_parse :: "string \<Rightarrow> json option" where
  "example_parse t =
     (if t = ''[1]'' then Some (JArray [JInt64 1])
      else if t = ''{}'' then Some (JObject [])
      else None)"

section \<open>Properties\<close>

subsection \<open>Facts about 64-bit words\<close>

lemma uint32_max_widened: "(ucast (- 1 :: 32 word) :: 64 word) = 4294967295"
  by (simp add: unsigned_minus_1_eq_mask mask_eq_exp_minus_1)

lemma sint_nonneg_uint: "0 \<le> sint (i :: 64 word) \<Longrightarrow> sint i = uint i"
proof -
  assume nn: "0 \<le> sint i"
  have "sint i < 2 ^ 63" using sint_lt [of i] by simp
  then have "sint i < 2 ^ 64" by simp
  with nn have "take_bit 64 (sint i) = sint i"
    by (simp add: take_bit_int_eq_self)
  then show ?thesis using uint_sint [of i] by simp
qed

lemma uint32_max_less: "((4294967295 :: 64 word) < u) = (\<not> uint u < 4294967296)"
  by (auto simp: word_less_def)

lemma uint_less_2p64: "uint (u :: 64 word) < 18446744073709551616"
  using uint_lt2p [of u] by simp

lemma uint_ucast_32:
  "uint u < 4294967296 \<Longrightarrow> uint (ucast (u :: 64 word) :: 32 word) = uint u"
  by (simp add: unsigned_ucast_eq take_bit_int_eq_self)

subsection \<open>Unsigned getters\<close>

lemma GetUint32_value:
  "map_option uint (GetUint32 data key) =
     (case root_at data key of
        Inl _ \<Rightarrow> None
      | Inr el \<Rightarrow>
          (case json_integer el of
             None \<Rightarrow> None
           | Some n \<Rightarrow> if 0 \<le> n \<and> n < 2 ^ 32 then Some n else None))"
  by (auto simp: GetUint32_def GetUintImpl_def root_at_def json_integer_def
       uint32_max_widened uint32_max_less sint_nonneg_uint uint_ucast_32
       split: sum.splits json.splits)

lemma GetUint64_value:
  "map_option uint (GetUint64 data key) =
     (case root_at data key of
        Inl _ \<Rightarrow> None
      | Inr el \<Rightarrow>
          (case json_integer el of
             None \<Rightarrow> None
           | Some n \<Rightarrow> if 0 \<le> n \<and> n < 2 ^ 64 then Some n else None))"
  by (auto simp: GetUint64_def GetUintImpl_def root_at_def json_integer_def
       uint_less_2p64 sint_nonneg_uint split: sum.splits json.splits)

lemma GetUint32_string: "GetUint32 (JObject [(k, JString s)]) k = None"
  by (simp add: GetUint32_def GetUintImpl_def)

lemma GetUint64_string: "GetUint64 (JObject [(k, JString s)]) k = None"
  by (simp add: GetUint64_def GetUintImpl_def)

lemma GetUint32_largest: "GetUint32 (JObject [(k, JInt64 4294967295)]) k = Some 4294967295"
  by (simp add: GetUint32_def GetUintImpl_def uint32_max_widened)

lemma GetUint32_too_large: "GetUint32 (JObject [(k, JInt64 4294967296)]) k = None"
  by (simp add: GetUint32_def GetUintImpl_def uint32_max_widened)

text \<open>
  Claim C3. An unsigned getter returns a value exactly when the key holds an integer,
  in the signed or the unsigned encoding, that is not negative and fits the width of
  the getter, and the value it returns is that integer; in every other case it
  returns nothing. \<^verbatim>\<open>GetUint32\<close> returns 4294967295 for 4294967295 and nothing
  for 4294967296, and neither getter reads a number out of a string.
\<close>

theorem GetUint_in_range:
  "map_option uint (GetUint32 data key) =
     (case root_at data key of
        Inl _ \<Rightarrow> None
      | Inr el \<Rightarrow>
          (case json_integer el of
             None \<Rightarrow> None
           | Some n \<Rightarrow> if 0 \<le> n \<and> n < 2 ^ 32 then Some n else None))
   \<and> map_option uint (GetUint64 data key) =
     (case root_at data key of
        Inl _ \<Rightarrow> None
      | Inr el \<Rightarrow>
          (case json_integer el of
             None \<Rightarrow> None
           | Some n \<Rightarrow> if 0 \<le> n \<and> n < 2 ^ 64 then Some n else None))
   \<and> GetUint32 (JObject [(k, JInt64 4294967295)]) k = Some 4294967295
   \<and> GetUint32 (JObject [(k, JInt64 4294967296)]) k = None
   \<and> GetUint32 (JObject [(k, JString s)]) k = None
   \<and> GetUint64 (JObject [(k, JString s)]) k = None"
  using GetUint32_value [of data key] GetUint64_value [of data key]
    GetUint32_largest [of k] GetUint32_too_large [of k]
    GetUint32_string [of k s] GetUint64_string [of k s]
  by (intro conjI) assumption+

subsection \<open>Rectangles\<close>

lemma GetRect_cases:
  "GetRect data left top' width height =
     (case GetUint32 data width of
        None \<Rightarrow>
          (case GetUint32 data height of
             None \<Rightarrow> ([], None)
           | Some h \<Rightarrow> ([RectIncomplete width height], None))
      | Some w \<Rightarrow>
          (case GetUint32 data height of
             None \<Rightarrow> ([RectIncomplete width height], None)
           | Some h \<Rightarrow>
               ([], Some [case GetUint32 data left of None \<Rightarrow> 0 | Some l \<Rightarrow> l,
                          case GetUint32 data top' of None \<Rightarrow> 0 | Some t \<Rightarrow> t,
                          w, h])))"
  by (simp add: GetRect_def Let_def has_value_def value_or_def split: option.splits)

lemma GetUint32_at:
  "GetUint32 (JObject fields) key =
     (case at_key fields key of
        Inl _ \<Rightarrow> None
      | Inr el \<Rightarrow>
          (case json_integer el of
             None \<Rightarrow> None
           | Some n \<Rightarrow> if 0 \<le> n \<and> n < 2 ^ 32 then Some (word_of_int n) else None))"
  by (auto simp: GetUint32_def GetUintImpl_def json_integer_def
       uint32_max_widened uint32_max_less sint_nonneg_uint
       split: sum.splits json.splits)

lemma GetRect_width_height_only:
  "GetRect (JObject [(''w'', JInt64 800), (''h'', JInt64 600)]) ''x'' ''y'' ''w'' ''h''
     = ([], Some [0, 0, 800, 600])"
  by (simp add: GetRect_cases GetUint32_at json_integer_def)

lemma GetRect_all_four:
  "GetRect (JObject [(''x'', JInt64 10), (''y'', JInt64 20), (''w'', JInt64 800),
       (''h'', JInt64 600)]) ''x'' ''y'' ''w'' ''h''
     = ([], Some [10, 20, 800, 600])"
  by (simp add: GetRect_cases GetUint32_at json_integer_def)

lemma GetRect_width_only:
  "GetRect (JObject [(''x'', JInt64 10), (''y'', JInt64 20), (''w'', JInt64 800)])
       ''x'' ''y'' ''w'' ''h''
     = ([RectIncomplete ''w'' ''h''], None)"
  by (simp add: GetRect_cases GetUint32_at json_integer_def)

text \<open>
  Claim C4. \<^verbatim>\<open>GetRect\<close> returns nothing and prints nothing when neither the width
  key nor the height key gives an unsigned 32-bit value; it prints its message and
  returns nothing when exactly one of them does; and when both do, it prints nothing
  and returns left, top, width and height, where left and top are 0 if their keys give
  no value. So width 800 and height 600 alone give \<open>[0, 0, 800, 600]\<close>, all four
  keys give the four values, and a width without a height gives the message.
\<close>

theorem GetRect_width_and_height:
  "GetRect data left top' width height =
     (case GetUint32 data width of
        None \<Rightarrow>
          (case GetUint32 data height of
             None \<Rightarrow> ([], None)
           | Some h \<Rightarrow> ([RectIncomplete width height], None))
      | Some w \<Rightarrow>
          (case GetUint32 data height of
             None \<Rightarrow> ([RectIncomplete width height], None)
           | Some h \<Rightarrow>
               ([], Some [case GetUint32 data left of None \<Rightarrow> 0 | Some l \<Rightarrow> l,
                          case GetUint32 data top' of None \<Rightarrow> 0 | Some t \<Rightarrow> t,
                          w, h])))
   \<and> GetRect (JObject [(''w'', JInt64 800), (''h'', JInt64 600)]) ''x'' ''y'' ''w'' ''h''
       = ([], Some [0, 0, 800, 600])
   \<and> GetRect (JObject [(''x'', JInt64 10), (''y'', JInt64 20), (''w'', JInt64 800),
         (''h'', JInt64 600)]) ''x'' ''y'' ''w'' ''h''
       = ([], Some [10, 20, 800, 600])
   \<and> GetRect (JObject [(''x'', JInt64 10), (''y'', JInt64 20), (''w'', JInt64 800)])
         ''x'' ''y'' ''w'' ''h''
       = ([RectIncomplete ''w'' ''h''], None)"
  using GetRect_cases [of data left top' width height]
    GetRect_width_height_only GetRect_all_four GetRect_width_only
  by (intro conjI) assumption+

theorem GetRect_width_and_height_witness:
  "GetRect (JObject [(''x'', JInt64 10), (''h'', JInt64 600)]) ''x'' ''y'' ''w'' ''h''
     = ([RectIncomplete ''w'' ''h''], None)
   \<and> GetRect (JObject [(''x'', JInt64 10), (''w'', JString ''800''), (''h'', JInt64 (- 1))])
       ''x'' ''y'' ''w'' ''h''
     = ([], None)"
  using GetRect_width_and_height
      [of "JObject [(''x'', JInt64 10), (''h'', JInt64 600)]" "''x''" "''y''" "''w''" "''h''"]
    GetRect_width_and_height
      [of "JObject [(''x'', JInt64 10), (''w'', JString ''800''), (''h'', JInt64 (- 1))]"
        "''x''" "''y''" "''w''" "''h''"]
  by (simp add: GetUint32_at json_integer_def)

subsection \<open>String lists\<close>

lemma string_list_loop_eq: "string_list_loop arr result = result @ strings_of arr"
  by (induction arr arbitrary: result) (auto simp: strings_of_def split: json.splits)

lemma GetStringList_eq:
  "GetStringList data key =
     (case root_at data key of Inr (JArray arr) \<Rightarrow> strings_of arr | _ \<Rightarrow> [])"
  by (auto simp: GetStringList_def root_at_def string_list_loop_eq
      split: sum.splits json.splits)

lemma GetStringList_mixed:
  "GetStringList
     (JObject [(''k'', JArray [JString ''a'', JInt64 1, JString ''b'', JDouble d,
        JBool True, JNull, JString ''c''])]) ''k''
     = [''a'', ''b'', ''c'']"
  by (simp add: GetStringList_eq root_at_def strings_of_def)

text \<open>
  Claim C10. On a key that holds an array, \<^verbatim>\<open>GetStringList\<close> returns the string
  elements of the array in their order and leaves every other element out: no element
  fails the list and none is turned into a string. An array of strings mixed with
  numbers and other values gives exactly its strings.
\<close>

theorem GetStringList_skips_non_strings:
  "GetStringList data key =
     (case root_at data key of Inr (JArray arr) \<Rightarrow> strings_of arr | _ \<Rightarrow> [])
   \<and> GetStringList
       (JObject [(''k'', JArray [JString ''a'', JInt64 1, JString ''b'', JDouble d,
          JBool True, JNull, JString ''c''])]) ''k''
       = [''a'', ''b'', ''c'']"
  using GetStringList_eq [of data key] GetStringList_mixed [of d]
  by (intro conjI) assumption+

subsection \<open>Voices\<close>

lemma field_string_eq:
  "field_string obj k =
     (case at_key obj k of
        Inl _ \<Rightarrow> None
      | Inr el \<Rightarrow> (case get_string el of Inl _ \<Rightarrow> None | Inr s \<Rightarrow> Some s))"
  by (auto simp: field_string_def split: sum.splits json.splits)

lemma field_bool_eq:
  "field_bool obj k =
     (case at_key obj k of
        Inl _ \<Rightarrow> None
      | Inr el \<Rightarrow> (case get_bool el of Inl _ \<Rightarrow> None | Inr b \<Rightarrow> Some b))"
  by (auto simp: field_bool_def split: sum.splits json.splits)

text \<open>The round of the loop reads the five fields first and decodes them after; the
  outcome is that of reading and decoding field by field.\<close>

lemma voice_entry_object:
  "voice_entry (JObject obj) =
     (case field_string obj ''lang'' of None \<Rightarrow> None | Some lang \<Rightarrow>
      case field_string obj ''name'' of None \<Rightarrow> None | Some name \<Rightarrow>
      case field_string obj ''voiceUri'' of None \<Rightarrow> None | Some uri \<Rightarrow>
      case field_bool obj ''isDefault'' of None \<Rightarrow> None | Some isDefault \<Rightarrow>
      case field_bool obj ''isLocalService'' of None \<Rightarrow> None | Some isLocal \<Rightarrow>
        Some (lang, name, uri, isDefault, isLocal))"
proof (cases "at_key obj ''lang''")
  case Inl
  then show ?thesis by (simp add: voice_entry_def field_string_eq)
next
  case lang: (Inr langEl)
  show ?thesis
  proof (cases "at_key obj ''name''")
    case Inl
    with lang show ?thesis
      by (simp add: voice_entry_def field_string_eq split: sum.splits)
  next
    case name: (Inr nameEl)
    show ?thesis
    proof (cases "at_key obj ''voiceUri''")
      case Inl
      with lang name show ?thesis
        by (simp add: voice_entry_def field_string_eq split: sum.splits)
    next
      case uri: (Inr uriEl)
      show ?thesis
      proof (cases "at_key obj ''isDefault''")
        case Inl
        with lang name uri show ?thesis
          by (simp add: voice_entry_def field_string_eq field_bool_eq split: sum.splits)
      next
        case dflt: (Inr defEl)
        show ?thesis
        proof (cases "at_key obj ''isLocalService''")
          case Inl
          with lang name uri dflt show ?thesis
            by (simp add: voice_entry_def field_string_eq field_bool_eq split: sum.splits)
        next
          case loc: (Inr localEl)
          with lang name uri dflt show ?thesis
            by (simp add: voice_entry_def field_string_eq field_bool_eq split: sum.splits)
        qed
      qed
    qed
  qed
qed

lemma voice_entry_eq: "voice_entry v = well_formed_voice v"
proof (cases v)
  case (JObject obj)
  then show ?thesis
    by (simp add: voice_entry_object well_formed_voice_def split: option.splits)
qed (simp_all add: voice_entry_def well_formed_voice_def)

lemma voices_loop_eq:
  "voices_loop arr voices = voices @ List.map_filter well_formed_voice arr"
  by (induction arr arbitrary: voices)
    (auto simp: voice_entry_eq List.map_filter_simps split: option.splits)

lemma MVoices_eq:
  "MVoices root =
     (case root_at root ''voices'' of
        Inr (JArray arr) \<Rightarrow> Some (List.map_filter well_formed_voice arr)
      | _ \<Rightarrow> None)"
  by (auto simp: MVoices_def root_at_def voices_loop_eq split: sum.splits json.splits)

lemma well_formed_voice_complete:
  "well_formed_voice (JObject [(''lang'', JString lang), (''name'', JString name),
      (''voiceUri'', JString uri), (''isDefault'', JBool d), (''isLocalService'', JBool l)])
     = Some (lang, name, uri, d, l)"
  by (simp add: well_formed_voice_def field_string_def field_bool_def)

lemma well_formed_voice_no_lang:
  "well_formed_voice (JObject [(''name'', JString name), (''voiceUri'', JString uri),
      (''isDefault'', JBool d), (''isLocalService'', JBool l)])
     = None"
  by (simp add: well_formed_voice_def field_string_def field_bool_def)

lemma MVoices_one_malformed:
  "MVoices (JObject [(''voices'', JArray [
       JObject [(''lang'', JString ''en-US''), (''name'', JString ''Alice''),
         (''voiceUri'', JString ''urn:a''), (''isDefault'', JBool True),
         (''isLocalService'', JBool True)],
       JObject [(''name'', JString ''Bob''), (''voiceUri'', JString ''urn:b''),
         (''isDefault'', JBool False), (''isLocalService'', JBool True)],
       JObject [(''lang'', JString ''fr-FR''), (''name'', JString ''Chloe''),
         (''voiceUri'', JString ''urn:c''), (''isDefault'', JBool False),
         (''isLocalService'', JBool False)]])])
     = Some [(''en-US'', ''Alice'', ''urn:a'', True, True),
             (''fr-FR'', ''Chloe'', ''urn:c'', False, False)]"
  by (simp add: MVoices_eq root_at_def List.map_filter_simps
      well_formed_voice_complete well_formed_voice_no_lang)

text \<open>
  Claim C7. On a \<^verbatim>\<open>voices\<close> array, \<^verbatim>\<open>MVoices\<close> returns the descriptors of the
  well-formed entries in the order of the array: an entry that is not an object, or
  that lacks one of the five fields or holds it with the wrong type, is left out and
  the entries after it are still decoded. An array of three entries whose second has
  no \<^verbatim>\<open>lang\<close> gives the first and the third.
\<close>

theorem MVoices_best_effort:
  "MVoices root =
     (case root_at root ''voices'' of
        Inr (JArray arr) \<Rightarrow> Some (List.map_filter well_formed_voice arr)
      | _ \<Rightarrow> None)
   \<and> MVoices (JObject [(''voices'', JArray [
         JObject [(''lang'', JString ''en-US''), (''name'', JString ''Alice''),
           (''voiceUri'', JString ''urn:a''), (''isDefault'', JBool True),
           (''isLocalService'', JBool True)],
         JObject [(''name'', JString ''Bob''), (''voiceUri'', JString ''urn:b''),
           (''isDefault'', JBool False), (''isLocalService'', JBool True)],
         JObject [(''lang'', JString ''fr-FR''), (''name'', JString ''Chloe''),
           (''voiceUri'', JString ''urn:c''), (''isDefault'', JBool False),
           (''isLocalService'', JBool False)]])])
       = Some [(''en-US'', ''Alice'', ''urn:a'', True, True),
               (''fr-FR'', ''Chloe'', ''urn:c'', False, False)]"
  using MVoices_eq [of root] MVoices_one_malformed
  by (intro conjI) assumption+

subsection \<open>The variant getter\<close>

lemma GLParam_order:
  "GLParam root pname isWebGL2 =
     (case GetNested root (parameters_domain isWebGL2) (to_string (unat pname)) of
        None \<Rightarrow> None
      | Some el \<Rightarrow>
          first_success
            [decode_null, decode_string, decode_double, decode_int64, decode_bool] el)"
proof (cases "GetNested root (parameters_domain isWebGL2) (to_string (unat pname))")
  case None
  then show ?thesis by (simp add: GLParam_def)
next
  case (Some el)
  then show ?thesis
    by (cases el)
      (simp_all add: GLParam_def decode_null_def decode_string_def decode_double_def
        decode_int64_def decode_bool_def)
qed

lemma first_success_kinds:
  "first_success [decode_null, decode_string, decode_double, decode_int64, decode_bool] el =
     (case el of
        JNull \<Rightarrow> Some VNull
      | JBool b \<Rightarrow> Some (VBool b)
      | JInt64 i \<Rightarrow> Some (VDouble (double_of_int64 i))
      | JUint64 u \<Rightarrow> Some (VDouble (double_of_uint64 u))
      | JDouble d \<Rightarrow> Some (VDouble d)
      | JString s \<Rightarrow> Some (VString s)
      | JArray arr \<Rightarrow> None
      | JObject obj \<Rightarrow> None)"
  by (cases el)
    (simp_all add: decode_null_def decode_string_def decode_double_def
      decode_int64_def decode_bool_def)

lemma to_string_3379: "to_string 3379 = ''3379''"
  by (simp add: to_string.simps digit_char_def)

lemma GetNested_parameter:
  "GetNested (JObject [(''webGl:parameters'', JObject [(''3379'', v)])])
     (parameters_domain False) (to_string (unat (3379 :: uint32))) = Some v"
  by (simp add: GetNested_def parameters_domain_def to_string_3379)

lemma GLParam_parameter:
  "GLParam (JObject [(''webGl:parameters'', JObject [(''3379'', v)])]) 3379 False =
     first_success [decode_null, decode_string, decode_double, decode_int64, decode_bool] v"
  unfolding GLParam_order GetNested_parameter by simp

lemma float_of_double_tenth: "float_of_double 0x3FB999999999999A = 0x3DCCCCCD"
  by (simp add: float_of_double_def float_bits_of_double_bits_def round_shift_def Let_def)

lemma double_of_int64_5: "double_of_int64 5 = 0x4014000000000000"
  by (simp add: double_of_int64_def double_bits_of_nat_def bit_length.simps Let_def)

text \<open>
  The order of the decodes in \<^verbatim>\<open>GLParam\<close> and what each kind of element gives:
  the decodes null, string, double, 64-bit integer, boolean are tried in this order
  and the first that succeeds is returned.
\<close>

lemma GLParam_decode_order:
  "GLParam root pname isWebGL2 =
     (case GetNested root (parameters_domain isWebGL2) (to_string (unat pname)) of
        None \<Rightarrow> None
      | Some el \<Rightarrow>
          first_success
            [decode_null, decode_string, decode_double, decode_int64, decode_bool] el)
   \<and> first_success [decode_null, decode_string, decode_double, decode_int64, decode_bool] el =
     (case el of
        JNull \<Rightarrow> Some VNull
      | JBool b \<Rightarrow> Some (VBool b)
      | JInt64 i \<Rightarrow> Some (VDouble (double_of_int64 i))
      | JUint64 u \<Rightarrow> Some (VDouble (double_of_uint64 u))
      | JDouble d \<Rightarrow> Some (VDouble d)
      | JString s \<Rightarrow> Some (VString s)
      | JArray arr \<Rightarrow> None
      | JObject obj \<Rightarrow> None)
   \<and> GLParam (JObject [(''webGl:parameters'', JObject [(''3379'', v)])]) 3379 False =
     first_success [decode_null, decode_string, decode_double, decode_int64, decode_bool] v"
  using GLParam_order [of root pname isWebGL2] first_success_kinds [of el]
    GLParam_parameter [of v]
  by (intro conjI) assumption+

text \<open>The integer alternative, which \<^verbatim>\<open>GLParam\<close> goes on to try after the double,
  is returned on no document.\<close>

lemma GLParam_never_int64: "GLParam root pname isWebGL2 \<noteq> Some (VInt64 i)"
proof (cases "GetNested root (parameters_domain isWebGL2) (to_string (unat pname))")
  case None
  then show ?thesis by (simp add: GLParam_order)
next
  case (Some el)
  then show ?thesis
    unfolding GLParam_order first_success_kinds by (cases el) simp_all
qed

text \<open>In \<^verbatim>\<open>GetDouble\<close> the two integer decodes that follow the double decode never
  give the result either: where the double decode fails, so do they.\<close>

lemma GetDouble_fallbacks_unreached:
  "GetDouble data key =
     (case root_at data key of
        Inl _ \<Rightarrow> None
      | Inr el \<Rightarrow> (case get_double el of Inl _ \<Rightarrow> None | Inr d \<Rightarrow> Some d))"
proof (cases "get_object data")
  case (Inl e)
  then show ?thesis by (simp add: GetDouble_def root_at_def)
next
  case obj: (Inr obj)
  show ?thesis
  proof (cases "at_key obj key")
    case (Inl e)
    with obj show ?thesis by (simp add: GetDouble_def root_at_def)
  next
    case (Inr el)
    with obj show ?thesis
      by (cases el) (simp_all add: GetDouble_def root_at_def)
  qed
qed

text \<open>
  Claim C1 at an integer. Under parameter 3379 the string \<^verbatim>\<open>"5"\<close> comes back as the
  string alternative, the double 5.0 (bit pattern \<open>0x4014000000000000\<close>) as the
  double alternative and \<^verbatim>\<open>true\<close> as the boolean alternative, as the claim says.
  The integer 5 comes back as the double alternative holding 5.0 and not as the
  integer alternative: the double decode, tried before the integer decode, accepts
  an integer element.
\<close>

theorem GLParam_integer_counterexample:
  "GLParam (JObject [(''webGl:parameters'', JObject [(''3379'', JInt64 5)])]) 3379 False
     = Some (VDouble 0x4014000000000000)
   \<and> GLParam (JObject [(''webGl:parameters'', JObject [(''3379'', JInt64 5)])]) 3379 False
     \<noteq> Some (VInt64 5)
   \<and> GLParam (JObject [(''webGl:parameters'', JObject [(''3379'', JString ''5'')])]) 3379 False
     = Some (VString ''5'')
   \<and> GLParam (JObject [(''webGl:parameters'', JObject [(''3379'',
         JDouble 0x4014000000000000)])]) 3379 False
     = Some (VDouble 0x4014000000000000)
   \<and> GLParam (JObject [(''webGl:parameters'', JObject [(''3379'', JBool True)])]) 3379 False
     = Some (VBool True)"
  unfolding GLParam_parameter first_success_kinds by (simp add: double_of_int64_5)

subsection \<open>The vector getter\<close>

lemma vector_loop_eq:
  "vector_loop T arr out =
     (if list_all (\<lambda>v. vector_element T v \<noteq> None) arr
      then Some (out @ map (\<lambda>v. the (vector_element T v)) arr) else None)"
  by (induction arr arbitrary: out) (auto split: option.splits)

text \<open>All or nothing, for every result type: the result is the list of all the
  elements as the round of the loop decodes them, or the default.\<close>

lemma MParamGLVector_all_or_nothing:
  "MParamGLVector T root pname defaultValue isWebGL2 =
     (case GetNested root (parameters_domain isWebGL2) (to_string (unat pname)) of
        Some (JArray arr) \<Rightarrow>
          if list_all (\<lambda>v. vector_element T v \<noteq> None) arr
          then map (\<lambda>v. the (vector_element T v)) arr else defaultValue
      | _ \<Rightarrow> defaultValue)"
  by (auto simp: MParamGLVector_def vector_loop_eq
      split: option.splits json.splits sum.splits)

lemma sint_uint_below: "uint (u :: 64 word) < 2 ^ 63 \<Longrightarrow> sint u = uint u"
proof -
  assume below: "uint u < 2 ^ 63"
  have "- (2 ^ 63) \<le> (0 :: int)" by simp
  also have "0 \<le> uint u" by simp
  finally have "- (2 ^ 63) \<le> uint u" .
  then have "signed_take_bit 63 (uint u) = uint u"
    using below by (rule signed_take_bit_int_eq_self)
  then show ?thesis by (simp add: sint_uint)
qed

lemma power_le_2p63: "w \<le> 64 \<Longrightarrow> (2 :: int) ^ (w - 1) \<le> 2 ^ 63"
  by (rule power_increasing) simp_all

text \<open>For every result type but \<^verbatim>\<open>bool\<close>, the round of the loop decodes an element
  by the coercion rule of the type.\<close>

lemma vector_element_signed:
  assumes "w \<le> 64"
  shows "vector_element (CSigned w) v = coerces_to (CSigned w) v"
proof (cases v)
  case (JUint64 u)
  show ?thesis
  proof (cases "9223372036854775807 < uint u")
    case True
    with power_le_2p63 [OF assms] have "\<not> uint u < 2 ^ (w - 1)" by simp
    with True JUint64 show ?thesis
      by (simp add: vector_element_def coerces_to_def json_integer_def)
  next
    case False
    then have "sint u = uint u" by (simp add: sint_uint_below)
    with False JUint64 show ?thesis
      by (auto simp: vector_element_def coerces_to_def json_integer_def)
  qed
qed (auto simp: vector_element_def coerces_to_def json_integer_def)

lemma vector_element_unsigned:
  "vector_element (CUnsigned w) v = coerces_to (CUnsigned w) v"
proof (cases v)
  case (JInt64 i)
  show ?thesis
  proof (cases "sint i < 0")
    case True
    with JInt64 show ?thesis
      by (simp add: vector_element_def coerces_to_def json_integer_def)
  next
    case False
    then have "sint i = uint i" by (simp add: sint_nonneg_uint)
    with False JInt64 show ?thesis
      by (auto simp: vector_element_def coerces_to_def json_integer_def cast_unsigned_def)
  qed
qed (auto simp: vector_element_def coerces_to_def json_integer_def cast_unsigned_def)

lemma vector_element_float: "vector_element CFloat v = coerces_to CFloat v"
  by (cases v) (simp_all add: vector_element_def coerces_to_def cast_floating_def)

lemma vector_element_double: "vector_element CDouble v = coerces_to CDouble v"
  by (cases v) (simp_all add: vector_element_def coerces_to_def cast_floating_def)

lemma vector_element_long_double:
  "vector_element CLongDouble v = coerces_to CLongDouble v"
  by (cases v) (simp_all add: vector_element_def coerces_to_def cast_floating_def)

lemma vector_element_string: "vector_element CString v = coerces_to CString v"
  by (cases v) (simp_all add: vector_element_def coerces_to_def)

lemma vector_element_other: "vector_element COther v = coerces_to COther v"
  by (simp add: vector_element_def coerces_to_def)

text \<open>For \<^verbatim>\<open>bool\<close> the unsigned branch is the one taken: the element is decoded as
  an unsigned integer of at most 1.\<close>

lemma vector_element_bool:
  "vector_element CBool v =
     (case get_uint64 v of
        Inl _ \<Rightarrow> None
      | Inr u \<Rightarrow> if 1 < uint u then None else Some (BoolV (u \<noteq> 0)))"
  by (simp add: vector_element_def cast_unsigned_def split: sum.splits)

lemma MParamGLVector_booleans:
  "MParamGLVector CBool
     (JObject [(''webGl:parameters'', JObject [(''3379'', JArray [JBool True, JBool False])])])
     3379 defaultValue False = defaultValue"
  unfolding MParamGLVector_def GetNested_parameter by (simp add: vector_element_bool)

lemma MParamGLVector_zero_one:
  "MParamGLVector CBool
     (JObject [(''webGl:parameters'', JObject [(''3379'', JArray [JInt64 1, JInt64 0])])])
     3379 defaultValue False = [BoolV True, BoolV False]"
  unfolding MParamGLVector_def GetNested_parameter by (simp add: vector_element_bool)

lemma MParamGL_boolean:
  "MParamGL CBool (JObject [(''webGl:parameters'', JObject [(''3379'', JBool True)])])
     3379 defaultValue False = BoolV True"
  unfolding MParamGL_def GetNested_parameter by simp

text \<open>
  Claim C6 at the result type \<^verbatim>\<open>bool\<close>. An array of booleans, every element of
  which coerces to \<^verbatim>\<open>bool\<close>, comes back as the default, and the array \<open>[1, 0]\<close>,
  no element of which is a boolean, comes back as \<open>[true, false]\<close>: the loop decodes
  the elements as unsigned integers. The scalar getter \<^verbatim>\<open>MParamGL\<close> decodes the
  boolean. (For every type the result is still all of the list or the default,
  \<open>MParamGLVector_all_or_nothing\<close>, and for the other types the elements are decoded
  by the rule of the type.)
\<close>

theorem MParamGLVector_bool_elements:
  "coerces_to CBool (JBool True) = Some (BoolV True)
   \<and> coerces_to CBool (JBool False) = Some (BoolV False)
   \<and> MParamGLVector CBool
       (JObject [(''webGl:parameters'', JObject [(''3379'', JArray [JBool True, JBool False])])])
       3379 [] False = []
   \<and> MParamGLVector CBool
       (JObject [(''webGl:parameters'', JObject [(''3379'', JArray [JBool True, JBool False])])])
       3379 [BoolV False] False = [BoolV False]
   \<and> coerces_to CBool (JInt64 1) = None
   \<and> MParamGLVector CBool
       (JObject [(''webGl:parameters'', JObject [(''3379'', JArray [JInt64 1, JInt64 0])])])
       3379 [] False = [BoolV True, BoolV False]
   \<and> MParamGL CBool (JObject [(''webGl:parameters'', JObject [(''3379'', JBool True)])])
       3379 (BoolV False) False = BoolV True"
  using MParamGLVector_booleans [of "[]"] MParamGLVector_booleans [of "[BoolV False]"]
    MParamGLVector_zero_one [of "[]"] MParamGL_boolean [of "BoolV False"]
  by (simp add: coerces_to_def)

subsection \<open>Shards and the single variable\<close>

lemma collect_parts_run:
  assumes present: "\<forall>k<length ss. get_env_utf8 env (shard_name (Suc k)) = Some (ss ! k)"
    and missing: "get_env_utf8 env (shard_name (Suc (length ss))) = None"
  shows "n \<le> length ss \<Longrightarrow> collect_parts env (Suc n) parts = parts @ drop n ss"
proof (induction "length ss - n" arbitrary: n parts)
  case 0
  then have "n = length ss" by simp
  with missing show ?case
    by (simp add: collect_parts.simps [of env "Suc (length ss)"])
next
  case (Suc d)
  then have less: "n < length ss" by simp
  with present have "get_env_utf8 env (shard_name (Suc n)) = Some (ss ! n)" by simp
  then have "collect_parts env (Suc n) parts =
      collect_parts env (Suc (Suc n)) (parts @ [ss ! n])"
    by (simp add: collect_parts.simps [of env "Suc n"])
  also have "\<dots> = (parts @ [ss ! n]) @ drop (Suc n) ss"
    using Suc less by (intro Suc.hyps(1)) simp_all
  also have "\<dots> = parts @ drop n ss"
    using less by (simp add: Cons_nth_drop_Suc)
  finally show ?case .
qed

lemma collect_parts_all:
  assumes "\<forall>k<length ss. get_env_utf8 env (shard_name (Suc k)) = Some (ss ! k)"
    and "get_env_utf8 env (shard_name (Suc (length ss))) = None"
  shows "collect_parts env (Suc 0) [] = ss"
  using collect_parts_run [OF assms, of 0 "[]"] by simp

lemma shard_name_not_single: "shard_name n \<noteq> ''CAMOU_CONFIG''"
  by (simp add: shard_name_def)

lemma collect_parts_single: "collect_parts [(''CAMOU_CONFIG'', t)] (Suc 0) [] = []"
  by (simp add: collect_parts.simps [of _ "Suc 0"] get_env_utf8_def shard_name_not_single)

lemma config_text_single: "config_text [(''CAMOU_CONFIG'', t)] = t"
  by (simp add: config_text_def collect_parts_single get_env_utf8_def)

lemma GetJson_text:
  "config_text env = config_text env' \<Longrightarrow> GetJson parse env = GetJson parse env'"
  by (simp add: GetJson_def)

lemma shards_text:
  assumes "\<forall>k<length ss. get_env_utf8 env (shard_name (Suc k)) = Some (ss ! k)"
    and "get_env_utf8 env (shard_name (Suc (length ss))) = None"
  shows "config_text env =
      (if concat ss = [] then
         (case get_env_utf8 env ''CAMOU_CONFIG'' of
            Some original \<Rightarrow> original
          | None \<Rightarrow> [])
       else concat ss)"
  using collect_parts_all [OF assms]
  by (simp add: config_text_def Let_def split: option.splits)

lemma shards_document:
  assumes "\<forall>k<length ss. get_env_utf8 env (shard_name (Suc k)) = Some (ss ! k)"
    and "get_env_utf8 env (shard_name (Suc (length ss))) = None"
    and "concat ss \<noteq> [] \<or> get_env_utf8 env ''CAMOU_CONFIG'' = None"
  shows "GetJson parse env = GetJson parse [(''CAMOU_CONFIG'', concat ss)]"
proof -
  from assms(3) have "config_text env = concat ss"
    unfolding shards_text [OF assms(1,2)] by auto
  then show ?thesis by (intro GetJson_text) (simp add: config_text_single)
qed

lemma shard_name_1: "shard_name (Suc 0) = ''CAMOU_CONFIG_1''"
  by (simp add: shard_name_def to_string.simps digit_char_def)

lemma shard_name_2: "shard_name (Suc (Suc 0)) = ''CAMOU_CONFIG_2''"
  by (simp add: shard_name_def to_string.simps digit_char_def)

lemma shard_name_3: "shard_name (Suc (Suc (Suc 0))) = ''CAMOU_CONFIG_3''"
  by (simp add: shard_name_def to_string.simps digit_char_def)

lemma collect_parts_empty_shard:
  "collect_parts [(''CAMOU_CONFIG_1'', ''''), (''CAMOU_CONFIG'', ''[1]'')] (Suc 0) [] = ['''']"
  by (simp add: collect_parts.simps [of _ "Suc 0"] collect_parts.simps [of _ "Suc (Suc 0)"]
      get_env_utf8_def shard_name_1 shard_name_2)

lemma config_text_empty_shard:
  "config_text [(''CAMOU_CONFIG_1'', ''''), (''CAMOU_CONFIG'', ''[1]'')] = ''[1]''"
  by (simp add: config_text_def collect_parts_empty_shard get_env_utf8_def)

text \<open>
  Claim C2 as stated fails where the shards are set and empty. With
  \<^verbatim>\<open>CAMOU_CONFIG_1\<close> set to the empty text and \<^verbatim>\<open>CAMOU_CONFIG\<close> set to
  \<^verbatim>\<open>[1]\<close>, an indexed variable exists, yet the text handed to the parser is that of
  \<^verbatim>\<open>CAMOU_CONFIG\<close> and not the concatenation of the shards: the document is the
  array, where the shards' text alone under \<^verbatim>\<open>CAMOU_CONFIG\<close> gives the empty
  object.
\<close>

theorem empty_shard_counterexample:
  "get_env_utf8 [(''CAMOU_CONFIG_1'', ''''), (''CAMOU_CONFIG'', ''[1]'')] (shard_name 1)
     = Some ''''
   \<and> collect_parts [(''CAMOU_CONFIG_1'', ''''), (''CAMOU_CONFIG'', ''[1]'')] 1 [] = ['''']
   \<and> config_text [(''CAMOU_CONFIG_1'', ''''), (''CAMOU_CONFIG'', ''[1]'')] = ''[1]''
   \<and> GetJson example_parse
       [(''CAMOU_CONFIG_1'', ''''), (''CAMOU_CONFIG'', ''[1]'')]
     = ([], JArray [JInt64 1])
   \<and> GetJson example_parse
       [(''CAMOU_CONFIG'',
         concat (collect_parts [(''CAMOU_CONFIG_1'', ''''), (''CAMOU_CONFIG'', ''[1]'')] 1 []))]
     = ([], JObject [])"
  by (simp add: collect_parts_empty_shard config_text_empty_shard config_text_single
      GetJson_def get_env_utf8_def shard_name_1 example_parse_def)

text \<open>
  Claim C2, amended. Let \<open>ss\<close> be the values of \<^verbatim>\<open>CAMOU_CONFIG_1\<close>, ...,
  \<^verbatim>\<open>CAMOU_CONFIG_N\<close>, with \<^verbatim>\<open>CAMOU_CONFIG_(N+1)\<close> not set. The loop collects
  exactly \<open>ss\<close>, and the text handed to the parser is their concatenation, without a
  separator, whenever that concatenation is not empty; when it is empty (no shard, or
  only empty shards), the text is the value of \<^verbatim>\<open>CAMOU_CONFIG\<close>, or empty if that
  is not set. So a non-empty concatenation supersedes \<^verbatim>\<open>CAMOU_CONFIG\<close>, and the
  document is then the one obtained from the same text under \<^verbatim>\<open>CAMOU_CONFIG\<close>
  alone; the same holds for an empty concatenation when \<^verbatim>\<open>CAMOU_CONFIG\<close> is not
  set.
\<close>

theorem shards_concatenated:
  assumes "\<forall>k<length ss. get_env_utf8 env (shard_name (Suc k)) = Some (ss ! k)"
    and "get_env_utf8 env (shard_name (Suc (length ss))) = None"
  shows "collect_parts env 1 [] = ss
    \<and> config_text env =
        (if concat ss = [] then
           (case get_env_utf8 env ''CAMOU_CONFIG'' of
              Some original \<Rightarrow> original
            | None \<Rightarrow> [])
         else concat ss)
    \<and> (concat ss \<noteq> [] \<or> get_env_utf8 env ''CAMOU_CONFIG'' = None \<longrightarrow>
         GetJson parse env = GetJson parse [(''CAMOU_CONFIG'', concat ss)])"
  using collect_parts_all [OF assms] shards_text [OF assms] shards_document [OF assms]
  by simp

theorem shards_concatenated_witness:
  "get_env_utf8 [(''CAMOU_CONFIG_2'', ''1]''), (''CAMOU_CONFIG'', ''{}''),
       (''CAMOU_CONFIG_1'', ''[''), (''CAMOU_CONFIG_4'', ''x'')] (shard_name 1) = Some ''[''
   \<and> get_env_utf8 [(''CAMOU_CONFIG_2'', ''1]''), (''CAMOU_CONFIG'', ''{}''),
       (''CAMOU_CONFIG_1'', ''[''), (''CAMOU_CONFIG_4'', ''x'')] (shard_name 2) = Some ''1]''
   \<and> get_env_utf8 [(''CAMOU_CONFIG_2'', ''1]''), (''CAMOU_CONFIG'', ''{}''),
       (''CAMOU_CONFIG_1'', ''[''), (''CAMOU_CONFIG_4'', ''x'')] (shard_name 3) = None
   \<and> collect_parts [(''CAMOU_CONFIG_2'', ''1]''), (''CAMOU_CONFIG'', ''{}''),
       (''CAMOU_CONFIG_1'', ''[''), (''CAMOU_CONFIG_4'', ''x'')] 1 [] = [''['', ''1]'']
   \<and> config_text [(''CAMOU_CONFIG_2'', ''1]''), (''CAMOU_CONFIG'', ''{}''),
       (''CAMOU_CONFIG_1'', ''[''), (''CAMOU_CONFIG_4'', ''x'')] = ''[1]''
   \<and> GetJson example_parse
       [(''CAMOU_CONFIG_2'', ''1]''), (''CAMOU_CONFIG'', ''{}''),
        (''CAMOU_CONFIG_1'', ''[''), (''CAMOU_CONFIG_4'', ''x'')]
     = GetJson example_parse
       [(''CAMOU_CONFIG'', ''[1]'')]"
proof -
  let ?env = "[(''CAMOU_CONFIG_2'', ''1]''), (''CAMOU_CONFIG'', ''{}''),
       (''CAMOU_CONFIG_1'', ''[''), (''CAMOU_CONFIG_4'', ''x'')]"
  have 1: "get_env_utf8 ?env (shard_name (Suc 0)) = Some ''[''"
    by (simp add: get_env_utf8_def shard_name_1)
  have 2: "get_env_utf8 ?env (shard_name (Suc (Suc 0))) = Some ''1]''"
    by (simp add: get_env_utf8_def shard_name_2)
  have 3: "get_env_utf8 ?env (shard_name (Suc (Suc (Suc 0)))) = None"
    by (simp add: get_env_utf8_def shard_name_3)
  have run: "\<forall>k<length [''['', ''1]'']. get_env_utf8 ?env (shard_name (Suc k))
      = Some ([''['', ''1]''] ! k)"
    using 1 2 by (simp add: All_less_Suc)
  have stop: "get_env_utf8 ?env (shard_name (Suc (length [''['', ''1]'']))) = None"
    using 3 by simp
  show ?thesis
    using shards_concatenated [OF run stop,
        of example_parse] 1 2 3
    by (simp add: numeral_2_eq_2 numeral_3_eq_3)
qed

subsection \<open>A text that does not parse\<close>

lemma GetJson_no_document:
  assumes "config_text env = [] \<or> parse (config_text env) = None"
  shows "GetJson parse env =
    (if config_text env = [] then [] else [InvalidJson], JObject [])"
  using assms by (auto simp: GetJson_def)

lemma empty_object_scalars:
  "GetString (JObject []) key = None"
  "GetStringList (JObject []) key = []"
  "GetUint32 (JObject []) key = None"
  "GetUint64 (JObject []) key = None"
  "GetInt32 (JObject []) key = None"
  "GetDouble (JObject []) key = None"
  "GetBool (JObject []) key = None"
  "CheckBool (JObject []) key = False"
  by (simp_all add: GetString_def GetStringList_def GetUint32_def GetUint64_def
      GetUintImpl_def GetInt32_def GetDouble_def GetBool_def CheckBool_def)

lemma empty_object_rects:
  "GetRect (JObject []) left top' width height = ([], None)"
  "GetInt32Rect (JObject []) left top' width height = ([], None)"
  by (simp_all add: GetInt32Rect_def GetRect_cases empty_object_scalars)

lemma empty_object_nested: "GetNested (JObject []) domain keyStr = None"
  by (simp add: GetNested_def)

lemma empty_object_webgl:
  "GetAttribute T (JObject []) attrib isWebGL2 = None"
  "GLParam (JObject []) pname isWebGL2 = None"
  "MParamGL T (JObject []) pname defaultValue isWebGL2 = defaultValue"
  "MParamGLVector T (JObject []) pname defaultValues isWebGL2 = defaultValues"
  "MShaderData (JObject []) shaderType precisionType isWebGL2 = None"
  "MVoices (JObject []) = None"
  by (simp_all add: GetAttribute_def GLParam_def MParamGL_def MParamGLVector_def
      MShaderData_def MVoices_def empty_object_nested)

lemma empty_object_lower:
  "fst (GetStringListLower (JObject []) Map.empty key) = []"
  by (simp add: GetStringListLower_def emplace_def empty_object_scalars)

text \<open>
  Claim C5. When the text of the configuration is empty, or is not empty and does not
  parse, the document is the object without fields; in the second case the message on
  invalid JSON is printed, in the first nothing. On that document every typed accessor
  returns nothing on every key, or its default where it has one.
\<close>

theorem parse_failure_gives_empty_object:
  assumes "config_text env = [] \<or> parse (config_text env) = None"
  shows "GetJson parse env =
      (if config_text env = [] then [] else [InvalidJson], JObject [])
    \<and> GetString (snd (GetJson parse env)) key = None
    \<and> GetStringList (snd (GetJson parse env)) key = []
    \<and> fst (GetStringListLower (snd (GetJson parse env)) Map.empty key) = []
    \<and> GetUint32 (snd (GetJson parse env)) key = None
    \<and> GetUint64 (snd (GetJson parse env)) key = None
    \<and> GetInt32 (snd (GetJson parse env)) key = None
    \<and> GetDouble (snd (GetJson parse env)) key = None
    \<and> GetBool (snd (GetJson parse env)) key = None
    \<and> CheckBool (snd (GetJson parse env)) key = False
    \<and> GetRect (snd (GetJson parse env)) left top' width height = ([], None)
    \<and> GetInt32Rect (snd (GetJson parse env)) left top' width height = ([], None)
    \<and> GetNested (snd (GetJson parse env)) domain key = None
    \<and> GetAttribute T (snd (GetJson parse env)) key isWebGL2 = None
    \<and> GLParam (snd (GetJson parse env)) pname isWebGL2 = None
    \<and> MParamGL T (snd (GetJson parse env)) pname defaultValue isWebGL2 = defaultValue
    \<and> MParamGLVector T (snd (GetJson parse env)) pname defaultValues isWebGL2
        = defaultValues
    \<and> MShaderData (snd (GetJson parse env)) shaderType precisionType isWebGL2 = None
    \<and> MVoices (snd (GetJson parse env)) = None"
  unfolding GetJson_no_document [where parse = parse and env = env, OF assms]
  by (simp add: empty_object_scalars empty_object_rects empty_object_nested
      empty_object_webgl empty_object_lower)

lemma config_text_malformed: "config_text [(''CAMOU_CONFIG'', ''{'')] = ''{''"
  by (rule config_text_single)

theorem parse_failure_gives_empty_object_witness:
  "example_parse (config_text [(''CAMOU_CONFIG'', ''{'')])
     = None
   \<and> GetJson example_parse [(''CAMOU_CONFIG'', ''{'')]
     = ([InvalidJson], JObject [])
   \<and> GetUint32 (snd (GetJson example_parse
        [(''CAMOU_CONFIG'', ''{'')])) ''screen.width'' = None
   \<and> MParamGL CBool (snd (GetJson example_parse
        [(''CAMOU_CONFIG'', ''{'')])) 3379 (BoolV True) False = BoolV True
   \<and> GetJson example_parse [] = ([], JObject [])"
proof -
  let ?parse = example_parse
  have malformed: "config_text [(''CAMOU_CONFIG'', ''{'')] = []
      \<or> ?parse (config_text [(''CAMOU_CONFIG'', ''{'')]) = None"
    by (simp add: config_text_malformed example_parse_def)
  have "config_text [] = []"
    by (simp add: config_text_def collect_parts.simps [of _ "Suc 0"] get_env_utf8_def)
  then have unset: "config_text [] = [] \<or> ?parse (config_text []) = None" by simp
  note at_malformed =
    parse_failure_gives_empty_object [where parse = ?parse
      and env = "[(''CAMOU_CONFIG'', ''{'')]" and key = "''screen.width''"
      and left = "[]" and top' = "[]" and width = "[]" and height = "[]"
      and domain = "[]" and T = CBool and ?isWebGL2.0 = False and pname = 3379
      and defaultValue = "BoolV True" and defaultValues = "[]"
      and shaderType = 0 and precisionType = 0, OF malformed]
  note at_unset =
    parse_failure_gives_empty_object [where parse = ?parse and env = "[]",
      OF unset, THEN conjunct1]
  show ?thesis
    using at_malformed at_unset
    by (auto simp: config_text_malformed \<open>config_text [] = []\<close> example_parse_def)
qed

subsection \<open>The cache of lower-cased lists\<close>

lemma emplace_keeps:
  "cache key' = Some v \<Longrightarrow> fst (emplace cache key val) key' = Some v"
  by (auto simp: emplace_def split: option.splits)

lemma emplace_existing:
  "cache key = Some v \<Longrightarrow> emplace cache key val = (cache, v)"
  by (simp add: emplace_def)

lemma GetStringListLower_hit:
  "cache key = Some v \<Longrightarrow> GetStringListLower data cache key = (v, cache)"
  by (simp add: GetStringListLower_def)

lemma GetStringListLower_miss:
  "cache key = None \<Longrightarrow>
     GetStringListLower data cache key =
       (map (map tolower) (GetStringList data key),
        cache(key \<mapsto> map (map tolower) (GetStringList data key)))"
  by (simp add: GetStringListLower_def emplace_def Let_def)

lemma GetStringListLower_keeps:
  "cache key' = Some v \<Longrightarrow> snd (GetStringListLower data cache key) key' = Some v"
  by (cases "cache key") (auto simp: GetStringListLower_hit GetStringListLower_miss)

lemma GetStringListLower_stored:
  "snd (GetStringListLower data cache key) key = Some (fst (GetStringListLower data cache key))"
  by (cases "cache key") (auto simp: GetStringListLower_hit GetStringListLower_miss)

lemma GetStringListLower_again:
  "GetStringListLower data (snd (GetStringListLower data cache key)) key =
     GetStringListLower data cache key"
proof -
  obtain r c where first: "GetStringListLower data cache key = (r, c)"
    by (cases "GetStringListLower data cache key")
  with GetStringListLower_stored [of data cache key] have "c key = Some r" by simp
  then have "GetStringListLower data c key = (r, c)"
    by (rule GetStringListLower_hit)
  with first show ?thesis by simp
qed

lemma consistent_empty: "consistent data Map.empty"
  by (simp add: consistent_def)

lemma consistent_step:
  "consistent data cache \<Longrightarrow> consistent data (snd (GetStringListLower data cache key))"
  by (cases "cache key")
    (auto simp: consistent_def GetStringListLower_hit GetStringListLower_miss)

lemma consistent_calls:
  "consistent data cache \<Longrightarrow> consistent data (calls data cache history)"
  by (induction history arbitrary: cache) (simp_all add: consistent_step)

lemma consistent_result:
  "consistent data cache \<Longrightarrow>
     fst (GetStringListLower data cache key) = map (map tolower) (GetStringList data key)"
  by (cases "cache key")
    (auto simp: consistent_def GetStringListLower_hit GetStringListLower_miss)

lemma GetStringListLower_after_calls:
  "fst (GetStringListLower data (calls data Map.empty history) key) =
     map (map tolower) (GetStringList data key)"
  by (intro consistent_result consistent_calls consistent_empty)

lemma tolower_example: "map tolower ''AbC-Z9'' = ''abc-z9''"
  by code_simp

text \<open>
  Claim C8. After any sequence of earlier calls on the same document, starting from
  the empty cache, \<^verbatim>\<open>GetStringListLower\<close> returns the list of \<^verbatim>\<open>GetStringList\<close>
  for the key with every upper-case ASCII letter of every string moved to lower case
  and every other byte kept; that list is empty when the key is absent or holds no
  array. A second call with the same key returns the same list and leaves the cache
  as it is, and neither a call nor \<^verbatim>\<open>emplace\<close> changes an entry the cache holds.
\<close>

theorem GetStringListLower_lowered:
  "fst (GetStringListLower data (calls data Map.empty history) key) =
     map (map tolower)
       (case root_at data key of Inr (JArray arr) \<Rightarrow> strings_of arr | _ \<Rightarrow> [])
   \<and> fst (GetStringListLower data (calls data Map.empty history) key) =
     map (map tolower) (GetStringList data key)
   \<and> map tolower ''AbC-Z9'' = ''abc-z9''
   \<and> GetStringListLower data (snd (GetStringListLower data cache key)) key =
     GetStringListLower data cache key
   \<and> (cache key' = Some v \<longrightarrow>
        snd (GetStringListLower data cache key) key' = Some v
        \<and> fst (emplace cache key val) key' = Some v
        \<and> emplace cache key' val = (cache, v))"
  using GetStringListLower_after_calls [of data history key] GetStringList_eq [of data key]
    GetStringListLower_again [of data cache key] tolower_example
    GetStringListLower_keeps [of cache key' v data key]
    emplace_keeps [of cache key' v key val] emplace_existing [of cache key' v val]
  by simp

theorem GetStringListLower_lowered_witness:
  "[''k'' \<mapsto> [''x'']] ''k'' = Some [''x'']
   \<and> snd (GetStringListLower (JObject [(''j'', JArray [JString ''Ab'', JInt64 1])])
        [''k'' \<mapsto> [''x'']] ''j'') ''k'' = Some [''x'']
   \<and> emplace [''k'' \<mapsto> [''x'']] ''k'' [''y''] = ([''k'' \<mapsto> [''x'']], [''x''])
   \<and> fst (GetStringListLower (JObject [(''j'', JArray [JString ''Ab'', JInt64 1])])
        (calls (JObject [(''j'', JArray [JString ''Ab'', JInt64 1])]) Map.empty [''j'', ''q''])
        ''j'') = [''ab'']"
proof -
  let ?data = "JObject [(''j'', JArray [JString ''Ab'', JInt64 1])]"
  have held: "[''k'' \<mapsto> [''x'']] ''k'' = Some [''x'']" by simp
  have lowered: "map tolower ''Ab'' = ''ab''" by code_simp
  note at_input =
    GetStringListLower_lowered [where data = ?data and history = "[''j'', ''q'']"
      and key = "''j''" and cache = "[''k'' \<mapsto> [''x'']]" and key' = "''k''"
      and v = "[''x'']" and val = "[''y'']"]
  show ?thesis
    using at_input held lowered by (simp add: root_at_def strings_of_def)
qed

end
